theory Spec2Isabelle
  imports Complex_Main "HOL-Library.AList" "HOL-Library.Sublist"
begin

section \<open>Values\<close>

text \<open>
  The service moves JSON values around: request bodies, objects parsed from model output,
  response bodies. A Python dict obtained from JSON is an association list (insertion
  order kept, string keys); Python's two number types stay apart. A finite float is the
  rational it denotes; the non-finite floats are not represented (they are truthy and
  take the same paths as any non-zero float).
\<close>

datatype json =
    JNull
  | JBool bool
  | JInt int
  | JFloat rat
  | JStr string
  | JArr "json list"
  | JObj "(string \<times> json) list"

text \<open>Python truthiness, as used by \<^verbatim>\<open>not x\<close>, \<^verbatim>\<open>x or y\<close> and \<^verbatim>\<open>if x\<close>.\<close>

fun truthy :: "json \<Rightarrow> bool" where
  "truthy JNull = False"
| "truthy (JBool b) = b"
| "truthy (JInt i) = (i \<noteq> 0)"
| "truthy (JFloat r) = (r \<noteq> 0)"
| "truthy (JStr s) = (s \<noteq> [])"
| "truthy (JArr xs) = (xs \<noteq> [])"
| "truthy (JObj kv) = (kv \<noteq> [])"

definition py_or :: "json \<Rightarrow> json \<Rightarrow> json" where
  "py_or a b = (if truthy a then a else b)"

text \<open>\<^verbatim>\<open>d.get(k)\<close> and \<^verbatim>\<open>d.get(k, default)\<close> on a dict.\<close>

definition dget_default :: "(string \<times> json) list \<Rightarrow> string \<Rightarrow> json \<Rightarrow> json" where
  "dget_default kv k d = (case map_of kv k of None \<Rightarrow> d | Some v \<Rightarrow> v)"

definition dget :: "(string \<times> json) list \<Rightarrow> string \<Rightarrow> json" where
  "dget kv k = dget_default kv k JNull"

text \<open>
  Exceptions. Those whose text the service reads through \<^verbatim>\<open>str(e)\<close> carry it; the
  others are only ever propagated to the framework, which answers 500.
\<close>

datatype exn =
    RuntimeError string
  | OpenAIError string
  | JSONDecodeError string
  | TypeError string
  | AttributeError
  | SqliteBindError
  | OverflowError
  | IntegrityError

fun str_exn :: "exn \<Rightarrow> string" where
  "str_exn (RuntimeError m) = m"
| "str_exn (OpenAIError m) = m"
| "str_exn (JSONDecodeError m) = m"
| "str_exn (TypeError m) = m"
| "str_exn AttributeError = ''object has no attribute get''"
| "str_exn SqliteBindError = ''Error binding parameter''"
| "str_exn OverflowError = ''Python int too large to convert to SQLite INTEGER''"
| "str_exn IntegrityError = ''UNIQUE constraint failed''"

fun py_type_name :: "json \<Rightarrow> string" where
  "py_type_name JNull = ''NoneType''"
| "py_type_name (JBool b) = ''bool''"
| "py_type_name (JInt i) = ''int''"
| "py_type_name (JFloat r) = ''float''"
| "py_type_name (JStr s) = ''str''"
| "py_type_name (JArr xs) = ''list''"
| "py_type_name (JObj kv) = ''dict''"

datatype response = Response nat json

fun status :: "response \<Rightarrow> nat" where
  "status (Response c b) = c"


section \<open>The record store\<close>

text \<open>
  What the sqlite3 module accepts as a statement parameter: None, int (bool included,
  within 64 bits), float and str. A list or a dict is refused.
\<close>

datatype sqlval = SqlNull | SqlInt int | SqlReal rat | SqlText string

fun adapt :: "json \<Rightarrow> exn + sqlval" where
  "adapt JNull = Inr SqlNull"
| "adapt (JBool b) = Inr (SqlInt (if b then 1 else 0))"
| "adapt (JInt i) =
     (if - (2 ^ 63) \<le> i \<and> i < 2 ^ 63 then Inr (SqlInt i) else Inl OverflowError)"
| "adapt (JFloat r) = Inr (SqlReal r)"
| "adapt (JStr s) = Inr (SqlText s)"
| "adapt (JArr xs) = Inl SqliteBindError"
| "adapt (JObj kv) = Inl SqliteBindError"

definition bindE :: "exn + 'a \<Rightarrow> ('a \<Rightarrow> exn + 'b) \<Rightarrow> exn + 'b" where
  "bindE m f = (case m of Inl e \<Rightarrow> Inl e | Inr x \<Rightarrow> f x)"

text \<open>The two tables of \<^verbatim>\<open>init_db\<close>, one record per row, rows in insertion order.\<close>

record policy_row =
  pid :: string
  policy_number :: sqlval
  customer_name :: sqlval
  customer_contact :: sqlval
  policy_type :: sqlval
  insurer_name :: sqlval
  expiry_date :: sqlval
  premium_amount :: sqlval
  no_claim_bonus_percent :: sqlval
  eligible_upsells :: string
  raw_parse :: string
  created_at :: string

record conversation_row =
  cid :: string
  session_id :: sqlval
  turn_role :: string
  turn_message :: sqlval
  turn_created_at :: string

text \<open>One message of a chat request, and one recorded invocation of \<^verbatim>\<open>call_llm\<close>.\<close>

record chat_message =
  role :: string
  content :: json

record llm_call =
  call_messages :: "chat_message list"
  call_temperature :: rat
  call_max_tokens :: nat

text \<open>
  The state a request runs in: the two tables (as \<^verbatim>\<open>init_db\<close> leaves them, then filled),
  a counter of the calls made to the outside world, and the list of the invocations of
  \<^verbatim>\<open>call_llm\<close> so far.
\<close>

record state =
  policies :: "policy_row list"
  conversations :: "conversation_row list"
  tick :: nat
  llm_log :: "llm_call list"

text \<open>
  Everything outside the source file is a parameter: the API key of the process, the
  chat-completion service (it may answer differently at every call, so it reads the
  counter), the json module, \<^verbatim>\<open>str()\<close> on a value that is not a string, the UUID
  generator, the clock, and SQLite's conversion of a number to text.
\<close>

record env =
  api_key :: "string option"
  chat_completion :: "nat \<Rightarrow> chat_message list \<Rightarrow> rat \<Rightarrow> nat \<Rightarrow> string + string"
  json_loads :: "string \<Rightarrow> string + json"
  json_dumps :: "json \<Rightarrow> string"
  py_str :: "json \<Rightarrow> string"
  uuid4 :: "nat \<Rightarrow> string"
  utcnow :: "nat \<Rightarrow> string"
  sqlite_text :: "sqlval \<Rightarrow> string"

text \<open>
  The column \<^verbatim>\<open>policy_number\<close> has TEXT affinity: \<^verbatim>\<open>WHERE policy_number = ?\<close>
  compares the stored value and the parameter as text, and NULL equals nothing.
\<close>

fun as_text :: "env \<Rightarrow> sqlval \<Rightarrow> string option" where
  "as_text env SqlNull = None"
| "as_text env (SqlText t) = Some t"
| "as_text env v = Some (sqlite_text env v)"

definition sql_eq :: "env \<Rightarrow> sqlval \<Rightarrow> sqlval \<Rightarrow> bool" where
  "sql_eq env a b =
     (case as_text env a of
        None \<Rightarrow> False
      | Some x \<Rightarrow> (case as_text env b of None \<Rightarrow> False | Some y \<Rightarrow> x = y))"

definition save_policy :: "env \<Rightarrow> json \<Rightarrow> state \<Rightarrow> (exn + string) \<times> state" where
  "save_policy env parsed_obj s =
     (let new_id = uuid4 env (tick s);
          s1 = s\<lparr>tick := tick s + 1\<rparr>
      in case parsed_obj of
           JObj kv \<Rightarrow>
             (let now = utcnow env (tick s1);
                  s2 = s1\<lparr>tick := tick s1 + 1\<rparr>;
                  row =
                    bindE (adapt (dget kv ''policy_number'')) (\<lambda>c1.
                    bindE (adapt (dget kv ''customer_name'')) (\<lambda>c2.
                    bindE (adapt (dget kv ''customer_contact'')) (\<lambda>c3.
                    bindE (adapt (dget kv ''policy_type'')) (\<lambda>c4.
                    bindE (adapt (dget kv ''insurer_name'')) (\<lambda>c5.
                    bindE (adapt (dget kv ''expiry_date'')) (\<lambda>c6.
                    bindE (adapt (dget kv ''premium_amount'')) (\<lambda>c7.
                    bindE (adapt (dget kv ''no_claim_bonus_percent'')) (\<lambda>c8.
                      Inr \<lparr>pid = new_id, policy_number = c1, customer_name = c2,
                           customer_contact = c3, policy_type = c4, insurer_name = c5,
                           expiry_date = c6, premium_amount = c7,
                           no_claim_bonus_percent = c8,
                           eligible_upsells =
                             json_dumps env (py_or (dget kv ''eligible_upsell'') (JArr [])),
                           raw_parse = json_dumps env parsed_obj,
                           created_at = now\<rparr>))))))))
              in case row of
                   Inl e \<Rightarrow> (Inl e, s2)
                 | Inr r \<Rightarrow>
                     if new_id \<in> set (map pid (policies s2)) then (Inl IntegrityError, s2)
                     else (Inr new_id, s2\<lparr>policies := policies s2 @ [r]\<rparr>))
         | _ \<Rightarrow> (Inl AttributeError, s1))"

definition get_policy_by_number :: "env \<Rightarrow> json \<Rightarrow> state \<Rightarrow> exn + json" where
  "get_policy_by_number env number s =
     (case adapt number of
        Inl e \<Rightarrow> Inl e
      | Inr v \<Rightarrow>
          (case find (\<lambda>r. sql_eq env (policy_number r) v) (policies s) of
             None \<Rightarrow> Inr JNull
           | Some r \<Rightarrow>
               (case json_loads env (raw_parse r) of
                  Inl m \<Rightarrow> Inl (JSONDecodeError m)
                | Inr j \<Rightarrow> Inr j)))"

definition log_conversation ::
  "env \<Rightarrow> json \<Rightarrow> string \<Rightarrow> json \<Rightarrow> state \<Rightarrow> (exn + unit) \<times> state" where
  "log_conversation env sid r msg s =
     (let new_id = uuid4 env (tick s);
          s1 = s\<lparr>tick := tick s + 1\<rparr>;
          now = utcnow env (tick s1);
          s2 = s1\<lparr>tick := tick s1 + 1\<rparr>;
          row =
            bindE (adapt sid) (\<lambda>c1.
            bindE (adapt msg) (\<lambda>c2.
              Inr \<lparr>cid = new_id, session_id = c1, turn_role = r, turn_message = c2,
                   turn_created_at = now\<rparr>))
      in case row of
           Inl e \<Rightarrow> (Inl e, s2)
         | Inr c \<Rightarrow>
             if new_id \<in> set (map cid (conversations s2)) then (Inl IntegrityError, s2)
             else (Inr (), s2\<lparr>conversations := conversations s2 @ [c]\<rparr>))"

section \<open>The model invoker\<close>

definition call_llm ::
  "env \<Rightarrow> chat_message list \<Rightarrow> rat \<Rightarrow> nat \<Rightarrow> state \<Rightarrow> (exn + string) \<times> state" where
  "call_llm env messages temperature max_tokens s =
     (let s1 = s\<lparr>llm_log := llm_log s @
                 [\<lparr>call_messages = messages, call_temperature = temperature,
                   call_max_tokens = max_tokens\<rparr>]\<rparr>
      in case api_key env of
           None \<Rightarrow> (Inl (RuntimeError ''OPENAI_API_KEY not set in environment.''), s1)
         | Some k \<Rightarrow>
             (case chat_completion env (tick s1) messages temperature max_tokens of
                Inl m \<Rightarrow> (Inl (OpenAIError m), s1\<lparr>tick := tick s1 + 1\<rparr>)
              | Inr out \<Rightarrow> (Inr out, s1\<lparr>tick := tick s1 + 1\<rparr>)))"

text \<open>
  The body shared by every \<^verbatim>\<open>try\<close> block of the handlers: one \<^verbatim>\<open>call_llm\<close>, then
  \<^verbatim>\<open>json.loads\<close> on what it returned.
\<close>

definition llm_json ::
  "env \<Rightarrow> chat_message list \<Rightarrow> rat \<Rightarrow> nat \<Rightarrow> state \<Rightarrow> (exn + json) \<times> state" where
  "llm_json env messages temperature max_tokens s =
     (case call_llm env messages temperature max_tokens s of
        (Inl e, s1) \<Rightarrow> (Inl e, s1)
      | (Inr out, s1) \<Rightarrow>
          (case json_loads env out of
             Inl m \<Rightarrow> (Inl (JSONDecodeError m), s1)
           | Inr v \<Rightarrow> (Inr v, s1)))"

definition system_msg :: "string \<Rightarrow> chat_message" where
  "system_msg p = \<lparr>role = ''system'', content = JStr p\<rparr>"

definition user_msg :: "json \<Rightarrow> chat_message" where
  "user_msg c = \<lparr>role = ''user'', content = c\<rparr>"

section \<open>Prompt templates\<close>

definition SYSTEM_PARSER_PROMPT :: string where
  "SYSTEM_PARSER_PROMPT =
     ''\<newline>'' @
     ''You are a professional insurance document parser. Input is either raw text extracted from a policy PDF or a description. Output MUST be a strict JSON object only (no explanatory text) with these fields:\<newline>'' @
     ''- policy_number (string or null)\<newline>'' @
     ''- policy_type (string or null)\<newline>'' @
     ''- insurer_name (string or null)\<newline>'' @
     ''- customer_name (string or null)\<newline>'' @
     ''- customer_contact (string or null, E.164 if possible)\<newline>'' @
     ''- expiry_date (YYYY-MM-DD or null)\<newline>'' @
     ''- premium_amount (number or null)\<newline>'' @
     ''- no_claim_bonus_percent (number between 0-100 or null)\<newline>'' @
     ''- asset_details (object with keys: make, model, year, registration_number - any can be null)\<newline>'' @
     ''- coverage_summary (array of strings)\<newline>'' @
     ''- eligible_upsell (array of strings)\<newline>'' @
     ''- last_payment_date (YYYY-MM-DD or null)\<newline>'' @
     ''\<newline>'' @
     ''If value is not present in the text, set it to null or an empty array/object as appropriate.\<newline>'' @
     ''Make a best-effort extraction. STRICT JSON output and nothing else.\<newline>''"

definition SYSTEM_NLU_PROMPT :: string where
  "SYSTEM_NLU_PROMPT =
     ''\<newline>'' @
     ''You are a compact NLU assistant. Given user text, return a JSON with:\<newline>'' @
     ''- intent: one of [renew_now, renew_later_date, needs_discount, needs_human_agent, modify_policy, interested_in_upsell, switching_to_competitor, not_interested, callback_request, out_of_scope]\<newline>'' @
     ''- confidence: 0.0 - 1.0\<newline>'' @
     ''- entities: dict of any extracted slots (policy_number, followup_date, preferred_channel, language, upsell_choice, payment_method, contact)\<newline>'' @
     ''Return only JSON, nothing else.\<newline>''"

definition SYSTEM_SENTIMENT_PROMPT :: string where
  "SYSTEM_SENTIMENT_PROMPT =
     ''\<newline>'' @
     ''You are a sentiment classifier. Input: a short user utterance. Return JSON:\<newline>'' @
     ''- sentiment: one of [positive, neutral, negative]\<newline>'' @
     ''- score: 0.0 - 1.0 (confidence)\<newline>'' @
     ''Return only JSON.\<newline>''"

definition SYSTEM_AGENT_POLICY :: string where
  "SYSTEM_AGENT_POLICY =
     ''\<newline>'' @
     ''You are an Insurance Renewal & Upsell virtual agent. Behavior rules:\<newline>'' @
     ''1. Always confirm customer identity (customer_name and policy_number) if not confirmed.\<newline>'' @
     ''2. If expiry_date within 30 days, proactively offer renewal. Show premium and NCB.\<newline>'' @
     ''3. Check eligible_upsell and propose simple, short add-ons if sentiment positive and user willing.\<newline>'' @
     ''4. If user requests payment, call payment initiation (return payment_link).\<newline>'' @
     ''5. Keep messages short, empathetic, and in the user's preferred language (English/Hindi). If language not provided, default English.\<newline>'' @
     ''6. Respect opt-out and DND: if user says 'stop' or 'unsubscribe', log opt-out and confirm.\<newline>'' @
     ''7. Output must be a JSON object with keys:\<newline>'' @
     ''   - reply (string): text to send to the user\<newline>'' @
     ''   - language (string): 'en' or 'hi'\<newline>'' @
     ''   - action (string or null): one of [ask_for_missing_info, offer_renewal, initiate_payment, upsell_offer, schedule_callback, escalate_human, none]\<newline>'' @
     ''   - action_payload (object or null): additional instructions (e.g., payment_link, amount, followup_date)\<newline>'' @
     ''Return only JSON.\<newline>''"

section \<open>Endpoints\<close>

text \<open>
  A handler takes the value of \<^verbatim>\<open>request.json\<close> and the state, and returns either
  an exception it did not catch (the framework then answers 500) or a response, with
  the state as the request left it.
\<close>

type_synonym handler = "env \<Rightarrow> json \<Rightarrow> state \<Rightarrow> (exn + response) \<times> state"

definition error_body :: "string \<Rightarrow> json" where
  "error_body m = JObj [(''error'', JStr m)]"

definition error_details :: "string \<Rightarrow> string \<Rightarrow> json" where
  "error_details m d = JObj [(''error'', JStr m), (''details'', JStr d)]"

subsection \<open>POST /v1/policy/parse\<close>

text \<open>
  Lines 225 to 228: store the parsed object, then attach the identifier to it. Once
  \<^verbatim>\<open>save_policy\<close> has returned, the object is a dict.
\<close>

definition store_parsed :: "env \<Rightarrow> json \<Rightarrow> state \<Rightarrow> (exn + response) \<times> state" where
  "store_parsed env parsed s =
     (case save_policy env parsed s of
        (Inl e, s1) \<Rightarrow> (Inl e, s1)
      | (Inr new_id, s1) \<Rightarrow>
          (case parsed of
             JObj kv \<Rightarrow>
               (Inr (Response 200 (JObj (AList.update ''_db_id'' (JStr new_id) kv))), s1)
           | _ \<Rightarrow> (Inl (TypeError ''object does not support item assignment''), s1)))"

definition retry_prompt :: "exn \<Rightarrow> string \<Rightarrow> string" where
  "retry_prompt e text =
     ''Please re-output ONLY the JSON object. Previous attempt error: '' @ str_exn e @
     ''\<newline>\<newline>Original text:\<newline>'' @ text"

text \<open>What \<^verbatim>\<open>str + x\<close> raises when \<^verbatim>\<open>x\<close> is not a string.\<close>

definition concat_error :: "json \<Rightarrow> exn" where
  "concat_error v =
     TypeError (''can only concatenate str (not '' @ [CHR 0x22] @ py_type_name v @
                [CHR 0x22] @ '') to str'')"

definition parse_policy :: handler where
  "parse_policy env body s =
     (case py_or body (JObj []) of
        JObj kv \<Rightarrow>
          (let text = py_or (py_or (dget kv ''text'') (dget kv ''file_url'')) (JStr [])
           in if \<not> truthy text then
                (Inr (Response 400
                   (error_body ''Provide 'text' (extracted PDF text) or 'file_url' (text).'')), s)
              else
                (case llm_json env [system_msg SYSTEM_PARSER_PROMPT, user_msg text] 0 600 s of
                   (Inr parsed, s1) \<Rightarrow> store_parsed env parsed s1
                 | (Inl e, s1) \<Rightarrow>
                     (case text of
                        JStr t \<Rightarrow>
                          (case llm_json env
                                  [system_msg SYSTEM_PARSER_PROMPT,
                                   user_msg (JStr (retry_prompt e t))] 0 600 s1 of
                             (Inr parsed, s2) \<Rightarrow> store_parsed env parsed s2
                           | (Inl e2, s2) \<Rightarrow>
                               (Inr (Response 500
                                  (error_details ''LLM parsing failed'' (str_exn e2))), s2))
                      | _ \<Rightarrow>
                          (Inr (Response 500
                             (error_details ''LLM parsing failed''
                                (str_exn (concat_error text)))), s1))))
      | _ \<Rightarrow> (Inl AttributeError, s))"

subsection \<open>POST /v1/nlp/intent and POST /v1/nlp/sentiment\<close>

definition nlu_intent :: handler where
  "nlu_intent env body s =
     (case py_or body (JObj []) of
        JObj kv \<Rightarrow>
          (let text = dget_default kv ''text'' (JStr [])
           in if \<not> truthy text then (Inr (Response 400 (error_body ''text required'')), s)
              else
                (case llm_json env [system_msg SYSTEM_NLU_PROMPT, user_msg text] 0 200 s of
                   (Inl e, s1) \<Rightarrow>
                     (Inr (Response 500 (error_details ''NLU LLM error'' (str_exn e))), s1)
                 | (Inr parsed, s1) \<Rightarrow> (Inr (Response 200 parsed), s1)))
      | _ \<Rightarrow> (Inl AttributeError, s))"

definition nlu_sentiment :: handler where
  "nlu_sentiment env body s =
     (case py_or body (JObj []) of
        JObj kv \<Rightarrow>
          (let text = dget_default kv ''text'' (JStr [])
           in if \<not> truthy text then (Inr (Response 400 (error_body ''text required'')), s)
              else
                (case llm_json env [system_msg SYSTEM_SENTIMENT_PROMPT, user_msg text] 0 100 s of
                   (Inl e, s1) \<Rightarrow>
                     (Inr (Response 500 (error_details ''Sentiment LLM error'' (str_exn e))), s1)
                 | (Inr parsed, s1) \<Rightarrow> (Inr (Response 200 parsed), s1)))
      | _ \<Rightarrow> (Inl AttributeError, s))"

subsection \<open>POST /v1/agent/message\<close>

text \<open>What an f-string puts for a value: the string itself, or \<^verbatim>\<open>str()\<close> of it.\<close>

definition fmt :: "env \<Rightarrow> json \<Rightarrow> string" where
  "fmt env v = (case v of JStr t \<Rightarrow> t | _ \<Rightarrow> py_str env v)"

definition default_nlu :: json where
  "default_nlu =
     JObj [(''intent'', JStr ''out_of_scope''), (''confidence'', JFloat (1 / 2)),
           (''entities'', JObj [])]"

definition default_sent :: json where
  "default_sent = JObj [(''sentiment'', JStr ''neutral''), (''score'', JFloat (1 / 2))]"

text \<open>Lines 302 to 310: the intent of the message, or the default.\<close>

definition nlu_step :: "env \<Rightarrow> json \<Rightarrow> state \<Rightarrow> json \<times> state" where
  "nlu_step env user_text s =
     (case llm_json env [system_msg SYSTEM_NLU_PROMPT, user_msg user_text] 0 200 s of
        (Inr nlu, s1) \<Rightarrow> (nlu, s1)
      | (Inl e, s1) \<Rightarrow> (default_nlu, s1))"

text \<open>Lines 312 to 320: the sentiment of the message, or the default.\<close>

definition sentiment_step :: "env \<Rightarrow> json \<Rightarrow> state \<Rightarrow> json \<times> state" where
  "sentiment_step env user_text s =
     (case llm_json env [system_msg SYSTEM_SENTIMENT_PROMPT, user_msg user_text] 0 80 s of
        (Inr sent, s1) \<Rightarrow> (sent, s1)
      | (Inl e, s1) \<Rightarrow> (default_sent, s1))"

text \<open>Lines 322 to 335: the prompt of the agent decision.\<close>

definition agent_user_prompt :: "env \<Rightarrow> json \<Rightarrow> json \<Rightarrow> json \<Rightarrow> json \<Rightarrow> json \<Rightarrow> string" where
  "agent_user_prompt env user_text policy nlu sent language =
     (let policy_context = (if truthy policy then json_dumps env policy else ''{}'')
      in ''\<newline>User message: '' @ fmt env user_text @
         ''\<newline>Policy context: '' @ policy_context @
         ''\<newline>NLU: '' @ json_dumps env nlu @
         ''\<newline>Sentiment: '' @ json_dumps env sent @
         ''\<newline>Preferred language: '' @ fmt env language @
         ''\<newline>\<newline>Following the agent behavior rules, produce the agent response JSON exactly with keys:\<newline>'' @
         ''reply, language ('en' or 'hi'), action (ask_for_missing_info | offer_renewal | initiate_payment | upsell_offer | schedule_callback | escalate_human | none), action_payload (object|null).\<newline>'' @
         ''\<newline>Keep reply short and polite. If asking for missing info, be specific about which field is missing (e.g., policy_number or customer_contact). If offering renewal, include premium and expiry_date. If initiating payment, include payment link.\<newline>'' @
         ''    '')"

definition fallback_reply :: string where
  "fallback_reply = ''I'm sorry, I'm having trouble right now. I'll escalate to a human agent.''"

definition fallback :: "json \<Rightarrow> exn \<Rightarrow> json" where
  "fallback language e =
     JObj [(''reply'', JStr fallback_reply), (''language'', language),
           (''action'', JStr ''escalate_human''),
           (''action_payload'', JObj [(''reason'', JStr (str_exn e))])]"

text \<open>Lines 336 to 351: the agent decision, or the fallback.\<close>

definition decision_step :: "env \<Rightarrow> string \<Rightarrow> json \<Rightarrow> state \<Rightarrow> json \<times> state" where
  "decision_step env prompt language s =
     (case llm_json env [system_msg SYSTEM_AGENT_POLICY, user_msg (JStr prompt)] 0 400 s of
        (Inr agent_json, s1) \<Rightarrow> (agent_json, s1)
      | (Inl e, s1) \<Rightarrow> (fallback language e, s1))"

definition mock_payment_id :: "string \<Rightarrow> string" where
  "mock_payment_id u = ''pay_'' @ take 8 u"

definition mock_payment_link :: "string \<Rightarrow> string" where
  "mock_payment_link payment_id = ''https://mockpay.example/pay/'' @ payment_id"

text \<open>
  Line 356: \<^verbatim>\<open>payload.get("amount") or (policy.get("premium_amount") if policy else None)\<close>.
\<close>

definition payment_amount :: "(string \<times> json) list \<Rightarrow> json \<Rightarrow> exn + json" where
  "payment_amount payload policy =
     (if truthy (dget payload ''amount'') then Inr (dget payload ''amount'')
      else if truthy policy then
        (case policy of
           JObj p \<Rightarrow> Inr (dget p ''premium_amount'')
         | _ \<Rightarrow> Inl AttributeError)
      else Inr JNull)"

text \<open>
  Lines 353 to 359: when the action is \<^verbatim>\<open>initiate_payment\<close>, the payload is replaced
  by a mock payment. \<^verbatim>\<open>.get\<close> on a value that is not a dict raises.
\<close>

definition payment_step :: "env \<Rightarrow> json \<Rightarrow> json \<Rightarrow> state \<Rightarrow> (exn + json) \<times> state" where
  "payment_step env agent_json policy s =
     (case agent_json of
        JObj kv \<Rightarrow>
          if dget kv ''action'' = JStr ''initiate_payment'' then
            (case py_or (dget kv ''action_payload'') (JObj []) of
               JObj payload \<Rightarrow>
                 (case payment_amount payload policy of
                    Inl e \<Rightarrow> (Inl e, s)
                  | Inr amount \<Rightarrow>
                      (let payment_id = mock_payment_id (uuid4 env (tick s));
                           payment_link = mock_payment_link payment_id
                       in (Inr (JObj (AList.update ''action_payload''
                              (JObj [(''payment_id'', JStr payment_id),
                                     (''payment_link'', JStr payment_link),
                                     (''amount'', amount)]) kv)),
                           s\<lparr>tick := tick s + 1\<rparr>)))
             | _ \<Rightarrow> (Inl AttributeError, s))
          else (Inr agent_json, s)
      | _ \<Rightarrow> (Inl AttributeError, s))"

text \<open>Lines 302 to 366. What \<^verbatim>\<open>payment_step\<close> returns is a dict.\<close>

definition agent_turn ::
  "env \<Rightarrow> json \<Rightarrow> json \<Rightarrow> json \<Rightarrow> json \<Rightarrow> state \<Rightarrow> (exn + response) \<times> state" where
  "agent_turn env sid language user_text policy s =
     (let (nlu, s1) = nlu_step env user_text s;
          (sent, s2) = sentiment_step env user_text s1;
          (agent_json, s3) =
            decision_step env
              (agent_user_prompt env user_text policy nlu sent language) language s2
      in case payment_step env agent_json policy s3 of
           (Inl e, s4) \<Rightarrow> (Inl e, s4)
         | (Inr response, s4) \<Rightarrow>
             (case response of
                JObj kv \<Rightarrow>
                  (case log_conversation env sid ''agent''
                          (dget_default kv ''reply'' (JStr [])) s4 of
                     (Inl e, s5) \<Rightarrow> (Inl e, s5)
                   | (Inr u, s5) \<Rightarrow> (Inr (Response 200 response), s5))
              | _ \<Rightarrow> (Inl AttributeError, s4)))"

text \<open>
  Lines 285 to 300: read the request, refuse an empty message, log the message, look
  the policy up. The result is the early response, or what the rest of the handler
  works on: session, language, message and policy.
\<close>

definition agent_prologue ::
  "env \<Rightarrow> json \<Rightarrow> state \<Rightarrow> (exn + (response + json \<times> json \<times> json \<times> json)) \<times> state" where
  "agent_prologue env body s =
     (case py_or body (JObj []) of
        JObj kv \<Rightarrow>
          (let given = dget kv ''session_id'';
               sid = (if truthy given then given else JStr (uuid4 env (tick s)));
               s0 = (if truthy given then s else s\<lparr>tick := tick s + 1\<rparr>);
               number = dget kv ''policy_number'';
               language = dget_default kv ''language'' (JStr ''en'');
               user_text = dget_default kv ''message'' (JStr [])
           in if \<not> truthy user_text then
                (Inr (Inl (Response 400 (error_body ''message required''))), s0)
              else
                (case log_conversation env sid ''user'' user_text s0 of
                   (Inl e, s1) \<Rightarrow> (Inl e, s1)
                 | (Inr u, s1) \<Rightarrow>
                     (case (if truthy number then get_policy_by_number env number s1
                            else Inr JNull) of
                        Inl e \<Rightarrow> (Inl e, s1)
                      | Inr policy \<Rightarrow> (Inr (Inr (sid, language, user_text, policy)), s1))))
      | _ \<Rightarrow> (Inl AttributeError, s))"

definition agent_message :: handler where
  "agent_message env body s =
     (case agent_prologue env body s of
        (Inl e, s1) \<Rightarrow> (Inl e, s1)
      | (Inr (Inl early), s1) \<Rightarrow> (Inr early, s1)
      | (Inr (Inr (sid, language, user_text, policy)), s1) \<Rightarrow>
          agent_turn env sid language user_text policy s1)"

subsection \<open>The stubs\<close>

definition payments_initiate :: handler where
  "payments_initiate env body s =
     (case py_or body (JObj []) of
        JObj kv \<Rightarrow>
          (let number = dget kv ''policy_number'';
               amount = dget kv ''amount''
           in if \<not> truthy amount then (Inr (Response 400 (error_body ''amount required'')), s)
              else
                (let payment_id = mock_payment_id (uuid4 env (tick s));
                     link = mock_payment_link payment_id
                 in (Inr (Response 200
                       (JObj [(''id'', JStr payment_id), (''payment_link'', JStr link)])),
                     s\<lparr>tick := tick s + 1\<rparr>)))
      | _ \<Rightarrow> (Inl AttributeError, s))"

definition notify_sms :: handler where
  "notify_sms env body s =
     (case py_or body (JObj []) of
        JObj kv \<Rightarrow>
          (let to = dget kv ''to'';
               text = dget kv ''text''
           in if \<not> truthy to \<or> \<not> truthy text then
                (Inr (Response 400 (error_body ''to and text required'')), s)
              else
                (Inr (Response 200
                   (JObj [(''status'', JStr ''sent''),
                          (''id'', JStr (''msg_'' @ take 8 (uuid4 env (tick s))))])),
                 s\<lparr>tick := tick s + 1\<rparr>))
      | _ \<Rightarrow> (Inl AttributeError, s))"

definition health :: handler where
  "health env body s =
     (Inr (Response 200
        (JObj [(''status'', JStr ''ok''), (''time'', JStr (utcnow env (tick s)))])),
      s\<lparr>tick := tick s + 1\<rparr>)"

section \<open>Sample environments\<close>

text \<open>
  Concrete surroundings for running the handlers: a fixed supply of identifiers, a json
  codec given by a table of texts and the values they denote, and a chat service that
  answers by the number of the call (and fails where the script is silent).
\<close>

definition sample_uuid :: "nat \<Rightarrow> string" where
  "sample_uuid n =
     (if n < 10 then
        [''3f2b8c1e-7a4d-4e9b-9c55-0d1e2f3a4b5c'', ''a81c04d2-19be-4f60-8d37-6b2e9f0c1d3e'',
         ''5d9e7f10-c3a2-4b84-a6f1-27c8e4b09d6a'', ''e4076b9a-52cf-41d8-b3e0-9a1f6c7d8e2b'',
         ''19c3a5e7-8b60-4f2d-97a4-c5d6e7f80a1b'', ''7b6a5c4d-3e2f-4a1b-8c9d-0e1f2a3b4c5d'',
         ''c2d3e4f5-a6b7-4c8d-9e0f-1a2b3c4d5e6f'', ''0a9b8c7d-6e5f-4d3c-b2a1-f0e9d8c7b6a5'',
         ''64f1e2d3-c4b5-4a69-8877-665544332211'', ''d5e6f7a8-b9c0-4d1e-a2f3-b4c5d6e7f8a9''] ! n
      else replicate n (CHR ''0''))"

definition sample_policy_json :: string where
  \<open>sample_policy_json = ''{"policy_number": "POL123", "premium_amount": 1200}''\<close>

definition sample_policy :: "(string \<times> json) list" where
  "sample_policy = [(''policy_number'', JStr ''POL123''), (''premium_amount'', JInt 1200)]"

definition sample_payment_json :: string where
  \<open>sample_payment_json =
     ''{"reply": "Paying now", "action": "initiate_payment", "action_payload": {"amount": 0}}''\<close>

definition sample_payment :: "(string \<times> json) list" where
  "sample_payment =
     [(''reply'', JStr ''Paying now''), (''action'', JStr ''initiate_payment''),
      (''action_payload'', JObj [(''amount'', JInt 0)])]"

definition sample_renewal_json :: string where
  \<open>sample_renewal_json = ''{"reply": "Your premium is 1200", "action": "offer_renewal"}''\<close>

definition sample_renewal :: "(string \<times> json) list" where
  "sample_renewal =
     [(''reply'', JStr ''Your premium is 1200''), (''action'', JStr ''offer_renewal'')]"

definition sample_codec :: "(string \<times> json) list" where
  "sample_codec =
     [(''{}'', JObj []),
      (''[]'', JArr []),
      (''[1]'', JArr [JInt 1]),
      (sample_policy_json, JObj sample_policy),
      (sample_payment_json, JObj sample_payment),
      (sample_renewal_json, JObj sample_renewal)]"

definition sample_loads :: "string \<Rightarrow> string + json" where
  "sample_loads t =
     (case map_of sample_codec t of
        Some v \<Rightarrow> Inr v
      | None \<Rightarrow> Inl ''Expecting value: line 1 column 1 (char 0)'')"

definition sample_dumps :: "json \<Rightarrow> string" where
  "sample_dumps v =
     (case map_of (map (\<lambda>(t, w). (w, t)) sample_codec) v of
        Some t \<Rightarrow> t
      | None \<Rightarrow> ''null'')"

definition scripted :: "(nat \<times> (string + string)) list \<Rightarrow> env" where
  "scripted replies =
     \<lparr>api_key = Some ''sk-test'',
      chat_completion =
        (\<lambda>t msgs temperature n.
           case map_of replies t of Some r \<Rightarrow> r | None \<Rightarrow> Inl ''Connection error.''),
      json_loads = sample_loads,
      json_dumps = sample_dumps,
      py_str = (\<lambda>v. ''None''),
      uuid4 = sample_uuid,
      utcnow = (\<lambda>n. ''2024-01-01T00:00:00''),
      sqlite_text = (\<lambda>v. ''0'')\<rparr>"

text \<open>The store as \<^verbatim>\<open>init_db\<close> leaves it.\<close>

definition init_db :: state where
  "init_db = \<lparr>policies = [], conversations = [], tick = 0, llm_log = []\<rparr>"

text \<open>A store that already holds one policy and one turn of an earlier conversation.\<close>

definition seeded_db :: state where
  \<open>seeded_db =
     \<lparr>policies =
        [\<lparr>pid = ''64f1e2d3-c4b5-4a69-8877-665544332211'',
          policy_number = SqlText ''POL123'', customer_name = SqlNull,
          customer_contact = SqlNull, policy_type = SqlNull, insurer_name = SqlNull,
          expiry_date = SqlNull, premium_amount = SqlInt 1200,
          no_claim_bonus_percent = SqlNull, eligible_upsells = ''[]'',
          raw_parse = sample_policy_json,
          created_at = ''2023-12-31T09:30:00''\<rparr>],
      conversations =
        [\<lparr>cid = ''d5e6f7a8-b9c0-4d1e-a2f3-b4c5d6e7f8a9'', session_id = SqlText ''s0'',
          turn_role = ''user'', turn_message = SqlText ''hello'',
          turn_created_at = ''2023-12-31T09:31:00''\<rparr>],
      tick = 0, llm_log = []\<rparr>\<close>

text \<open>The empty store once the message \<^verbatim>\<open>hi\<close> of session \<^verbatim>\<open>s1\<close> is logged.\<close>

definition after_user_turn :: state where
  "after_user_turn =
     init_db\<lparr>conversations :=
               [\<lparr>cid = ''3f2b8c1e-7a4d-4e9b-9c55-0d1e2f3a4b5c'', session_id = SqlText ''s1'',
                 turn_role = ''user'', turn_message = SqlText ''hi'',
                 turn_created_at = ''2024-01-01T00:00:00''\<rparr>],
             tick := 2\<rparr>"

section \<open>Specification vocabulary\<close>

text \<open>The store only grows: the rows of both tables are kept, in place, and rows are added.\<close>

definition grows :: "state \<Rightarrow> state \<Rightarrow> bool" where
  "grows s s' = (prefix (policies s) (policies s') \<and> prefix (conversations s) (conversations s'))"

text \<open>The endpoints of the service.\<close>

definition endpoints :: "handler list" where
  "endpoints =
     [parse_policy, nlu_intent, nlu_sentiment, agent_message, payments_initiate, notify_sms,
      health]"


text \<open>
  The invocations of \<^verbatim>\<open>call_llm\<close> a request makes, and the shape they all have: a
  system prompt, one user message, temperature 0 and a token budget.
\<close>

definition new_calls :: "handler \<Rightarrow> env \<Rightarrow> json \<Rightarrow> state \<Rightarrow> llm_call list" where
  "new_calls h env body s = drop (length (llm_log s)) (llm_log (snd (h env body s)))"

definition extraction_call :: "string \<Rightarrow> json \<Rightarrow> nat \<Rightarrow> llm_call" where
  "extraction_call prompt payload budget =
     \<lparr>call_messages = [system_msg prompt, user_msg payload], call_temperature = 0,
      call_max_tokens = budget\<rparr>"




section \<open>Effects on the state\<close>

text \<open>The equations that run a handler on a concrete request.\<close>

lemmas run_defs =
  parse_policy_def nlu_intent_def nlu_sentiment_def agent_message_def agent_prologue_def
  agent_turn_def nlu_step_def sentiment_step_def decision_step_def payment_step_def
  payment_amount_def payments_initiate_def notify_sms_def health_def store_parsed_def
  save_policy_def get_policy_by_number_def log_conversation_def call_llm_def llm_json_def
  py_or_def dget_def dget_default_def bindE_def sql_eq_def Let_def
  scripted_def sample_loads_def sample_dumps_def sample_codec_def sample_uuid_def
  sample_policy_json_def sample_policy_def sample_payment_json_def sample_payment_def
  sample_renewal_json_def sample_renewal_def
  init_db_def seeded_db_def
  fallback_def mock_payment_id_def mock_payment_link_def error_body_def error_details_def

lemma grows_refl: "grows s s"
  by (simp add: grows_def)

lemma grows_trans: "grows s t \<Longrightarrow> grows t u \<Longrightarrow> grows s u"
  unfolding grows_def by (meson prefix_order.trans)

lemma grows_tick: "grows s (s\<lparr>tick := n\<rparr>)"
  by (simp add: grows_def)

lemma save_policy_grows: "save_policy env p s = (r, s') \<Longrightarrow> grows s s'"
  by (auto simp: save_policy_def grows_def Let_def split: json.splits sum.splits if_splits)

lemma log_conversation_grows: "log_conversation env sid r m s = (x, s') \<Longrightarrow> grows s s'"
  by (auto simp: log_conversation_def grows_def Let_def split: sum.splits if_splits)

lemma call_llm_effect:
  "call_llm env msgs t n s = (r, s') \<Longrightarrow>
     policies s' = policies s \<and> conversations s' = conversations s \<and>
     llm_log s' = llm_log s @ [\<lparr>call_messages = msgs, call_temperature = t, call_max_tokens = n\<rparr>]"
  by (auto simp: call_llm_def Let_def split: option.splits sum.splits)

lemma llm_json_effect:
  "llm_json env msgs t n s = (r, s') \<Longrightarrow>
     policies s' = policies s \<and> conversations s' = conversations s \<and>
     llm_log s' = llm_log s @ [\<lparr>call_messages = msgs, call_temperature = t, call_max_tokens = n\<rparr>]"
  unfolding llm_json_def
  by (auto split: prod.splits sum.splits dest: call_llm_effect)

lemma llm_json_grows: "llm_json env msgs t n s = (r, s') \<Longrightarrow> grows s s'"
  by (drule llm_json_effect) (simp add: grows_def)

lemma store_parsed_grows: "store_parsed env p s = (r, s') \<Longrightarrow> grows s s'"
  unfolding store_parsed_def
  by (auto split: prod.splits sum.splits json.splits dest!: save_policy_grows)

lemma parse_policy_grows: "parse_policy env body s = (r, s') \<Longrightarrow> grows s s'"
  unfolding parse_policy_def Let_def
  by (auto split: json.splits if_splits prod.splits sum.splits
           intro: grows_refl elim: grows_trans dest!: llm_json_grows store_parsed_grows)

lemma log_conversation_log: "log_conversation env sid r m s = (x, s') \<Longrightarrow> llm_log s' = llm_log s"
  by (auto simp: log_conversation_def Let_def split: sum.splits if_splits)

lemma save_policy_log: "save_policy env p s = (r, s') \<Longrightarrow> llm_log s' = llm_log s"
  by (auto simp: save_policy_def Let_def split: json.splits sum.splits if_splits)

lemma nlu_intent_grows: "nlu_intent env body s = (r, s') \<Longrightarrow> grows s s'"
  unfolding nlu_intent_def Let_def
  by (auto split: json.splits if_splits prod.splits sum.splits
           intro: grows_refl dest!: llm_json_grows)

lemma nlu_sentiment_grows: "nlu_sentiment env body s = (r, s') \<Longrightarrow> grows s s'"
  unfolding nlu_sentiment_def Let_def
  by (auto split: json.splits if_splits prod.splits sum.splits
           intro: grows_refl dest!: llm_json_grows)

lemma nlu_step_grows: "nlu_step env t s = (r, s') \<Longrightarrow> grows s s'"
  unfolding nlu_step_def
  by (auto split: prod.splits sum.splits dest!: llm_json_grows)

lemma sentiment_step_grows: "sentiment_step env t s = (r, s') \<Longrightarrow> grows s s'"
  unfolding sentiment_step_def
  by (auto split: prod.splits sum.splits dest!: llm_json_grows)

lemma decision_step_grows: "decision_step env p l s = (r, s') \<Longrightarrow> grows s s'"
  unfolding decision_step_def
  by (auto split: prod.splits sum.splits dest!: llm_json_grows)

lemma payment_step_grows: "payment_step env a p s = (r, s') \<Longrightarrow> grows s s'"
  unfolding payment_step_def Let_def
  by (auto split: json.splits if_splits sum.splits intro: grows_refl grows_tick)

lemma agent_turn_grows: "agent_turn env sid l t p s = (r, s') \<Longrightarrow> grows s s'"
  unfolding agent_turn_def Let_def
  by (auto split: prod.splits sum.splits json.splits
           dest!: nlu_step_grows sentiment_step_grows decision_step_grows payment_step_grows
                  log_conversation_grows)
     (meson grows_trans)+

lemma agent_prologue_grows: "agent_prologue env body s = (r, s') \<Longrightarrow> grows s s'"
  unfolding agent_prologue_def Let_def
  by (auto split: json.splits if_splits prod.splits sum.splits
           dest!: log_conversation_grows
           intro: grows_refl grows_tick grows_trans[OF grows_tick])

lemma agent_message_grows: "agent_message env body s = (r, s') \<Longrightarrow> grows s s'"
  unfolding agent_message_def
  by (auto split: prod.splits sum.splits
           dest!: agent_prologue_grows agent_turn_grows elim: grows_trans)

lemma stubs_grow:
  "payments_initiate env body s = (r, s') \<Longrightarrow> grows s s'"
  "notify_sms env body s = (r, s') \<Longrightarrow> grows s s'"
  "health env body s = (r, s') \<Longrightarrow> grows s s'"
  unfolding payments_initiate_def notify_sms_def health_def Let_def
  by (auto split: json.splits if_splits intro: grows_refl grows_tick)


subsection \<open>The model calls of each step\<close>

lemma llm_json_log:
  "llm_json env [system_msg p, user_msg u] 0 n s = (r, s') \<Longrightarrow>
     llm_log s' = llm_log s @ [extraction_call p u n]"
  by (drule llm_json_effect) (simp add: extraction_call_def)

lemma store_parsed_log: "store_parsed env p s = (r, s') \<Longrightarrow> llm_log s' = llm_log s"
  unfolding store_parsed_def
  by (auto split: prod.splits sum.splits json.splits dest!: save_policy_log)

lemma new_calls_eq:
  "llm_log (snd (h env body s)) = llm_log s @ cs \<Longrightarrow> new_calls h env body s = cs"
  by (simp add: new_calls_def)

lemma payment_step_log: "payment_step env a p s = (r, s') \<Longrightarrow> llm_log s' = llm_log s"
  unfolding payment_step_def Let_def
  by (auto split: json.splits if_splits sum.splits)

lemma agent_prologue_log: "agent_prologue env body s = (r, s') \<Longrightarrow> llm_log s' = llm_log s"
  unfolding agent_prologue_def Let_def
  by (auto split: json.splits if_splits prod.splits sum.splits dest!: log_conversation_log)

lemma nlu_step_log:
  "nlu_step env t s = (r, s') \<Longrightarrow>
     llm_log s' = llm_log s @ [extraction_call SYSTEM_NLU_PROMPT t 200]"
  unfolding nlu_step_def
  by (auto split: prod.splits sum.splits dest!: llm_json_log)

lemma sentiment_step_log:
  "sentiment_step env t s = (r, s') \<Longrightarrow>
     llm_log s' = llm_log s @ [extraction_call SYSTEM_SENTIMENT_PROMPT t 80]"
  unfolding sentiment_step_def
  by (auto split: prod.splits sum.splits dest!: llm_json_log)

lemma decision_step_log:
  "decision_step env p l s = (r, s') \<Longrightarrow>
     llm_log s' = llm_log s @ [extraction_call SYSTEM_AGENT_POLICY (JStr p) 400]"
  unfolding decision_step_def
  by (auto split: prod.splits sum.splits dest!: llm_json_log)

lemma agent_turn_log:
  assumes "nlu_step env t s = (nlu, s1)" and "sentiment_step env t s1 = (sent, s2)"
  shows "llm_log (snd (agent_turn env sid l t p s)) =
           llm_log s @
           [extraction_call SYSTEM_NLU_PROMPT t 200,
            extraction_call SYSTEM_SENTIMENT_PROMPT t 80,
            extraction_call SYSTEM_AGENT_POLICY
              (JStr (agent_user_prompt env t p nlu sent l)) 400]"
proof -
  obtain d s3 where D: "decision_step env (agent_user_prompt env t p nlu sent l) l s2 = (d, s3)"
    by (cases "decision_step env (agent_user_prompt env t p nlu sent l) l s2")
  obtain r s4 where P: "payment_step env d p s3 = (r, s4)"
    by (cases "payment_step env d p s3")
  have L3: "llm_log s3 = llm_log s @
           [extraction_call SYSTEM_NLU_PROMPT t 200,
            extraction_call SYSTEM_SENTIMENT_PROMPT t 80,
            extraction_call SYSTEM_AGENT_POLICY
              (JStr (agent_user_prompt env t p nlu sent l)) 400]"
    using nlu_step_log[OF assms(1)] sentiment_step_log[OF assms(2)] decision_step_log[OF D]
    by simp
  have L4: "llm_log s4 = llm_log s3"
    using payment_step_log[OF P] .
  show ?thesis
    unfolding agent_turn_def using assms D P L3 L4
    by (auto split: sum.splits json.splits prod.splits dest!: log_conversation_log)
qed








lemma agent_message_calls:
  assumes "agent_prologue env body s = (Inr (Inr (sid, l, t, p)), s1)"
    and "nlu_step env t s1 = (nlu, s2)" and "sentiment_step env t s2 = (sent, s3)"
  shows "new_calls agent_message env body s =
           [extraction_call SYSTEM_NLU_PROMPT t 200,
            extraction_call SYSTEM_SENTIMENT_PROMPT t 80,
            extraction_call SYSTEM_AGENT_POLICY
              (JStr (agent_user_prompt env t p nlu sent l)) 400]"
  by (rule new_calls_eq)
     (simp add: agent_message_def assms(1) agent_turn_log[OF assms(2,3)]
                agent_prologue_log[OF assms(1)])

lemma agent_message_no_calls:
  assumes "agent_prologue env body s = (Inl e, s1) \<or> agent_prologue env body s = (Inr (Inl r), s1)"
  shows "new_calls agent_message env body s = []"
  by (rule new_calls_eq) (use assms agent_prologue_log in \<open>auto simp: agent_message_def\<close>)

lemma store_parsed_log_snd: "llm_log (snd (store_parsed env p s)) = llm_log s"
  by (cases "store_parsed env p s") (simp add: store_parsed_log)

lemma parse_policy_log_shape:
  "\<exists>cs. llm_log (snd (parse_policy env body s)) = llm_log s @ cs \<and>
        (\<forall>c\<in>set cs. \<exists>u. c = extraction_call SYSTEM_PARSER_PROMPT u 600)"
  unfolding parse_policy_def Let_def
  by (auto simp: store_parsed_log_snd split: json.splits prod.splits sum.splits
           dest!: llm_json_log)

lemma nlu_intent_log_shape:
  "\<exists>cs. llm_log (snd (nlu_intent env body s)) = llm_log s @ cs \<and>
        (\<forall>c\<in>set cs. \<exists>u. c = extraction_call SYSTEM_NLU_PROMPT u 200)"
  unfolding nlu_intent_def Let_def
  by (auto split: json.splits prod.splits sum.splits dest!: llm_json_log)

lemma nlu_sentiment_log_shape:
  "\<exists>cs. llm_log (snd (nlu_sentiment env body s)) = llm_log s @ cs \<and>
        (\<forall>c\<in>set cs. \<exists>u. c = extraction_call SYSTEM_SENTIMENT_PROMPT u 100)"
  unfolding nlu_sentiment_def Let_def
  by (auto split: json.splits prod.splits sum.splits dest!: llm_json_log)

lemma agent_message_log_shape:
  "new_calls agent_message env body s = [] \<or>
   (\<exists>t p. new_calls agent_message env body s =
      [extraction_call SYSTEM_NLU_PROMPT t 200,
       extraction_call SYSTEM_SENTIMENT_PROMPT t 80,
       extraction_call SYSTEM_AGENT_POLICY (JStr p) 400])"
proof -
  obtain r s1 where P: "agent_prologue env body s = (r, s1)"
    by (cases "agent_prologue env body s")
  show ?thesis
  proof (cases r)
    case (Inl e)
    with P show ?thesis by (simp add: agent_message_no_calls)
  next
    case (Inr x)
    show ?thesis
    proof (cases x)
      case (Inl early)
      with P Inr show ?thesis by (simp add: agent_message_no_calls)
    next
      case (Inr ctx)
      obtain sid l t p where ctx: "ctx = (sid, l, t, p)"
        by (cases ctx)
      obtain nlu s2 where N: "nlu_step env t s1 = (nlu, s2)"
        by (cases "nlu_step env t s1")
      obtain sent s3 where S: "sentiment_step env t s2 = (sent, s3)"
        by (cases "sentiment_step env t s2")
      from P \<open>r = Inr x\<close> Inr ctx
      have "agent_prologue env body s = (Inr (Inr (sid, l, t, p)), s1)" by simp
      from agent_message_calls[OF this N S] show ?thesis by blast
    qed
  qed
qed

lemma nlu_step_failed:
  assumes "llm_json env [system_msg SYSTEM_NLU_PROMPT, user_msg t] 0 200 s = (Inl e, s1)"
  shows "nlu_step env t s = (default_nlu, s1)"
  using assms by (simp add: nlu_step_def)

lemma sentiment_step_failed:
  assumes "llm_json env [system_msg SYSTEM_SENTIMENT_PROMPT, user_msg t] 0 80 s = (Inl e, s1)"
  shows "sentiment_step env t s = (default_sent, s1)"
  using assms by (simp add: sentiment_step_def)

subsection \<open>What a successful parse stores\<close>

lemma bindE_Inr: "bindE m f = Inr y \<longleftrightarrow> (\<exists>x. m = Inr x \<and> f x = Inr y)"
  by (cases m) (simp_all add: bindE_def)

lemma save_policy_success:
  assumes "save_policy env p s = (Inr new_id, s')"
  shows "\<exists>kv row. p = JObj kv \<and> policies s' = policies s @ [row] \<and> pid row = new_id \<and>
           new_id \<notin> pid ` set (policies s) \<and> raw_parse row = json_dumps env p \<and>
           adapt (dget kv ''policy_number'') = Inr (policy_number row)"
proof (cases p)
  case (JObj kv)
  with assms show ?thesis
    unfolding save_policy_def Let_def
    by (auto simp: bindE_Inr split: sum.splits if_splits)
qed (use assms in \<open>simp_all add: save_policy_def Let_def\<close>)

lemma store_parsed_success:
  assumes "store_parsed env p s = (Inr resp, s')"
  shows "\<exists>kv row. p = JObj kv \<and> policies s' = policies s @ [row] \<and>
           pid row \<notin> pid ` set (policies s) \<and> raw_parse row = json_dumps env (JObj kv) \<and>
           adapt (dget kv ''policy_number'') = Inr (policy_number row) \<and>
           resp = Response 200 (JObj (AList.update ''_db_id'' (JStr (pid row)) kv))"
proof -
  obtain r s1 where S: "save_policy env p s = (r, s1)"
    by (cases "save_policy env p s")
  with assms obtain new_id where r: "r = Inr new_id"
    by (cases r) (simp_all add: store_parsed_def)
  from save_policy_success[OF S[unfolded r]] obtain kv row where
    kv: "p = JObj kv" "policies s1 = policies s @ [row]" "pid row = new_id"
        "new_id \<notin> pid ` set (policies s)" "raw_parse row = json_dumps env p"
        "adapt (dget kv ''policy_number'') = Inr (policy_number row)"
    by blast
  with assms S r show ?thesis
    by (auto simp: store_parsed_def)
qed

lemma parse_policy_success:
  assumes "parse_policy env body s = (Inr (Response 200 r), s')"
  shows "\<exists>p s0. store_parsed env p s0 = (Inr (Response 200 r), s') \<and> policies s0 = policies s"
  using assms unfolding parse_policy_def Let_def error_body_def error_details_def
  by (auto split: json.splits if_splits prod.splits sum.splits dest!: llm_json_effect)
     blast+

lemma parse_policy_inserts:
  assumes "parse_policy env body s = (Inr (Response 200 r), s')"
  shows "\<exists>kv row. policies s' = policies s @ [row] \<and> pid row \<notin> pid ` set (policies s) \<and>
           raw_parse row = json_dumps env (JObj kv) \<and>
           adapt (dget kv ''policy_number'') = Inr (policy_number row) \<and>
           r = JObj (AList.update ''_db_id'' (JStr (pid row)) kv)"
proof -
  from parse_policy_success[OF assms] obtain p s0 where
    S: "store_parsed env p s0 = (Inr (Response 200 r), s')" and P: "policies s0 = policies s"
    by blast
  from store_parsed_success[OF S] P show ?thesis
    by auto
qed

lemma dget_update_same: "dget (AList.update k v kv) k = v"
  by (simp add: dget_def dget_default_def update_conv')




subsection \<open>The steps of an agent turn\<close>

lemma agent_message_turn:
  assumes "agent_prologue env body s = (Inr (Inr (sid, l, t, p)), s1)"
  shows "agent_message env body s = agent_turn env sid l t p s1"
  using assms by (simp add: agent_message_def)

lemma agent_turn_unfold:
  assumes "nlu_step env t s1 = (nlu, s2)" and "sentiment_step env t s2 = (sent, s3)"
    and "decision_step env (agent_user_prompt env t p nlu sent l) l s3 = (d, s4)"
  shows "agent_turn env sid l t p s1 =
           (case payment_step env d p s4 of
              (Inl e, s5) \<Rightarrow> (Inl e, s5)
            | (Inr response, s5) \<Rightarrow>
                (case response of
                   JObj kv \<Rightarrow>
                     (case log_conversation env sid ''agent''
                             (dget_default kv ''reply'' (JStr [])) s5 of
                        (Inl e, s6) \<Rightarrow> (Inl e, s6)
                      | (Inr u, s6) \<Rightarrow> (Inr (Response 200 response), s6))
                 | _ \<Rightarrow> (Inl AttributeError, s5)))"
  using assms by (simp add: agent_turn_def)



lemma payment_step_other_action:
  assumes "dget kv ''action'' \<noteq> JStr ''initiate_payment''"
  shows "payment_step env (JObj kv) p s = (Inr (JObj kv), s)"
  using assms by (simp add: payment_step_def)

lemma payment_step_not_object:
  assumes "\<And>kv. d \<noteq> JObj kv"
  shows "payment_step env d p s = (Inl AttributeError, s)"
proof (cases d)
  case (JObj kv)
  with assms show ?thesis by blast
qed (simp_all add: payment_step_def)
















lemma payment_step_initiate:
  assumes "dget A ''action'' = JStr ''initiate_payment''"
    and "py_or (dget A ''action_payload'') (JObj []) = JObj payload"
    and "truthy policy \<longrightarrow> policy = JObj pk"
  shows "payment_step env (JObj A) policy s =
           (Inr (JObj (AList.update ''action_payload''
              (JObj [(''payment_id'', JStr (''pay_'' @ take 8 (uuid4 env (tick s)))),
                     (''payment_link'',
                        JStr (''https://mockpay.example/pay/'' @ ''pay_'' @
                              take 8 (uuid4 env (tick s)))),
                     (''amount'',
                        if truthy (dget payload ''amount'') then dget payload ''amount''
                        else if truthy policy then dget pk ''premium_amount'' else JNull)])
              A)),
            s\<lparr>tick := tick s + 1\<rparr>)"
  using assms
  by (auto simp: payment_step_def payment_amount_def mock_payment_id_def mock_payment_link_def
                 Let_def)

section \<open>The store is append-only\<close>

text \<open>
  C8: no operation of the service mutates or deletes a stored policy record or conversation
  turn. Whatever the endpoint, the request, the surroundings and the outcome (response or
  uncaught exception), the rows of both tables before the request are a prefix of the rows
  after it: they are all still there, unchanged and in place.
\<close>

theorem store_append_only:
  assumes "h \<in> set endpoints"
  shows "prefix (policies s) (policies (snd (h env body s))) \<and>
         prefix (conversations s) (conversations (snd (h env body s)))"
proof -
  obtain r s' where run: "h env body s = (r, s')"
    by (cases "h env body s")
  from assms consider "h = parse_policy" | "h = nlu_intent" | "h = nlu_sentiment"
    | "h = agent_message" | "h = payments_initiate" | "h = notify_sms" | "h = health"
    unfolding endpoints_def by auto
  then have "grows s s'"
    using run
    by cases (auto dest: parse_policy_grows nlu_intent_grows nlu_sentiment_grows
                         agent_message_grows stubs_grow)
  with run show ?thesis
    by (simp add: grows_def)
qed

theorem store_append_only_witness:
  "agent_message \<in> set endpoints \<and>
   prefix (policies seeded_db)
     (policies (snd (agent_message (scripted [])
        (JObj [(''session_id'', JStr ''s1''), (''message'', JStr ''hi'')]) seeded_db))) \<and>
   prefix (conversations seeded_db)
     (conversations (snd (agent_message (scripted [])
        (JObj [(''session_id'', JStr ''s1''), (''message'', JStr ''hi'')]) seeded_db))) \<and>
   length (conversations (snd (agent_message (scripted [])
        (JObj [(''session_id'', JStr ''s1''), (''message'', JStr ''hi'')]) seeded_db))) = 3"
  using store_append_only [of agent_message seeded_db "scripted []"
      "JObj [(''session_id'', JStr ''s1''), (''message'', JStr ''hi'')]"]
  by (simp add: endpoints_def run_defs)

section \<open>Token budgets\<close>

text \<open>
  C9, as the spec states it, gives the sentiment classification a budget of 100 tokens
  at every invocation, those made inside the dialogue orchestrator included. In the
  orchestrator the second call of a turn is the sentiment classification, and it passes 80.
\<close>

theorem orchestrator_sentiment_budget_is_80:
  "llm_log (snd (agent_message (scripted [])
      (JObj [(''session_id'', JStr ''s1''), (''message'', JStr ''hi'')]) init_db)) ! 1 =
     \<lparr>call_messages = [system_msg SYSTEM_SENTIMENT_PROMPT, user_msg (JStr ''hi'')],
      call_temperature = 0, call_max_tokens = 80\<rparr>"
  by (simp add: run_defs)

text \<open>
  C9, amended: every call of the policy endpoint passes 600 tokens, every call of the intent
  endpoint 200 and every call of the sentiment endpoint 100, each with the prompt of its
  schema; a turn of the orchestrator makes either no call or exactly three, in this order:
  intent with 200 tokens, sentiment with 80 tokens, agent decision with 400 tokens.
\<close>

theorem token_budgets:
  "(\<forall>c\<in>set (new_calls parse_policy env body s).
      \<exists>u. c = extraction_call SYSTEM_PARSER_PROMPT u 600) \<and>
   (\<forall>c\<in>set (new_calls nlu_intent env body s).
      \<exists>u. c = extraction_call SYSTEM_NLU_PROMPT u 200) \<and>
   (\<forall>c\<in>set (new_calls nlu_sentiment env body s).
      \<exists>u. c = extraction_call SYSTEM_SENTIMENT_PROMPT u 100) \<and>
   (new_calls agent_message env body s = [] \<or>
    (\<exists>t p. new_calls agent_message env body s =
       [extraction_call SYSTEM_NLU_PROMPT t 200,
        extraction_call SYSTEM_SENTIMENT_PROMPT t 80,
        extraction_call SYSTEM_AGENT_POLICY (JStr p) 400]))"
proof (intro conjI)
  show "\<forall>c\<in>set (new_calls parse_policy env body s).
      \<exists>u. c = extraction_call SYSTEM_PARSER_PROMPT u 600"
    using parse_policy_log_shape[of env body s] by (auto simp: new_calls_def)
  show "\<forall>c\<in>set (new_calls nlu_intent env body s).
      \<exists>u. c = extraction_call SYSTEM_NLU_PROMPT u 200"
    using nlu_intent_log_shape[of env body s] by (auto simp: new_calls_def)
  show "\<forall>c\<in>set (new_calls nlu_sentiment env body s).
      \<exists>u. c = extraction_call SYSTEM_SENTIMENT_PROMPT u 100"
    using nlu_sentiment_log_shape[of env body s] by (auto simp: new_calls_def)
  show "new_calls agent_message env body s = [] \<or>
    (\<exists>t p. new_calls agent_message env body s =
       [extraction_call SYSTEM_NLU_PROMPT t 200,
        extraction_call SYSTEM_SENTIMENT_PROMPT t 80,
        extraction_call SYSTEM_AGENT_POLICY (JStr p) 400])"
    by (rule agent_message_log_shape)
qed

theorem token_budgets_witness:
  "new_calls nlu_sentiment (scripted []) (JObj [(''text'', JStr ''thanks a lot'')]) init_db =
     [extraction_call SYSTEM_SENTIMENT_PROMPT (JStr ''thanks a lot'') 100] \<and>
   new_calls parse_policy (scripted []) (JObj [(''text'', JStr ''Policy POL123'')]) init_db \<noteq> [] \<and>
   new_calls nlu_intent (scripted []) (JObj [(''text'', JStr ''renew'')]) init_db \<noteq> [] \<and>
   map call_max_tokens (new_calls agent_message (scripted [])
     (JObj [(''session_id'', JStr ''s1''), (''message'', JStr ''hi'')]) init_db) = [200, 80, 400]"
  using token_budgets [of "scripted []" "JObj [(''text'', JStr ''thanks a lot'')]" init_db]
  by (simp add: new_calls_def extraction_call_def run_defs)

section \<open>Payment initiation\<close>

text \<open>
  C7, as the spec states it, has the payment endpoint answer 400 exactly when the amount
  is absent or null. The guard of the handler is \<^verbatim>\<open>if not amount\<close>: an amount of 0 is
  present and not null, and is refused all the same.
\<close>

theorem payments_initiate_zero_amount:
  "dget [(''amount'', JInt 0)] ''amount'' \<noteq> JNull \<and>
   payments_initiate (scripted []) (JObj [(''amount'', JInt 0)]) init_db =
     (Inr (Response 400 (JObj [(''error'', JStr ''amount required'')])), init_db)"
  by (simp add: run_defs)

text \<open>
  C7, amended: on a JSON object, the payment endpoint answers 400 exactly when the amount
  is absent or falsy (null, 0, 0.0, false, an empty string, list or object); for every
  request with a truthy amount it answers with a generated id prefixed \<^verbatim>\<open>pay_\<close> and a
  payment link that ends in that id; in both cases the two tables are left as they were.
\<close>

theorem payments_initiate_spec:
  "((\<exists>b. fst (payments_initiate env (JObj kv) s) = Inr (Response 400 b)) \<longleftrightarrow>
      \<not> truthy (dget kv ''amount'')) \<and>
   (truthy (dget kv ''amount'') \<longrightarrow>
      (\<exists>payment_id.
         fst (payments_initiate env (JObj kv) s) =
           Inr (Response 200
             (JObj [(''id'', JStr payment_id),
                    (''payment_link'', JStr (''https://mockpay.example/pay/'' @ payment_id))])) \<and>
         payment_id = ''pay_'' @ take 8 (uuid4 env (tick s)))) \<and>
   policies (snd (payments_initiate env (JObj kv) s)) = policies s \<and>
   conversations (snd (payments_initiate env (JObj kv) s)) = conversations s"
proof (cases "truthy (dget kv ''amount'')")
  case True
  then have "kv \<noteq> []"
    by (auto simp: dget_def dget_default_def)
  with True show ?thesis
    by (simp add: payments_initiate_def py_or_def mock_payment_id_def mock_payment_link_def Let_def)
next
  case False
  then show ?thesis
    by (cases kv) (simp_all add: payments_initiate_def py_or_def Let_def)
qed

theorem payments_initiate_spec_witness:
  "truthy (dget [(''amount'', JInt 500)] ''amount'') \<and>
   fst (payments_initiate (scripted []) (JObj [(''amount'', JInt 500)]) init_db) =
     Inr (Response 200
       (JObj [(''id'', JStr ''pay_3f2b8c1e''),
              (''payment_link'', JStr ''https://mockpay.example/pay/pay_3f2b8c1e'')])) \<and>
   \<not> truthy (dget [(''policy_number'', JStr ''POL123'')] ''amount'') \<and>
   fst (payments_initiate (scripted []) (JObj [(''policy_number'', JStr ''POL123'')]) init_db) =
     Inr (Response 400 (JObj [(''error'', JStr ''amount required'')]))"
  using payments_initiate_spec [of "scripted []" "[(''amount'', JInt 500)]" init_db]
  by (simp add: run_defs)

section \<open>The corrective retry\<close>




section \<open>Defaults of the classifications\<close>

text \<open>
  C6: inside the dialogue orchestrator, when the intent classification fails (the call or
  the parse of its output), the intent result is exactly the default
  \<^verbatim>\<open>{intent: out_of_scope, confidence: 0.5, entities: {}}\<close>; when the sentiment
  classification fails, the sentiment result is exactly \<^verbatim>\<open>{sentiment: neutral, score: 0.5}\<close>;
  and in every case the turn goes on to the agent decision, whose call is made with the
  prompt built from these two results.
\<close>

theorem classification_defaults:
  assumes "agent_prologue env body s = (Inr (Inr (sid, language, user_text, policy)), s1)"
    and "nlu_step env user_text s1 = (nlu, s2)"
    and "sentiment_step env user_text s2 = (sent, s3)"
  shows "(isl (fst (llm_json env [system_msg SYSTEM_NLU_PROMPT, user_msg user_text] 0 200 s1)) \<longrightarrow>
            nlu = JObj [(''intent'', JStr ''out_of_scope''), (''confidence'', JFloat (1 / 2)),
                        (''entities'', JObj [])]) \<and>
         (isl (fst (llm_json env [system_msg SYSTEM_SENTIMENT_PROMPT, user_msg user_text] 0 80 s2)) \<longrightarrow>
            sent = JObj [(''sentiment'', JStr ''neutral''), (''score'', JFloat (1 / 2))]) \<and>
         new_calls agent_message env body s =
           [extraction_call SYSTEM_NLU_PROMPT user_text 200,
            extraction_call SYSTEM_SENTIMENT_PROMPT user_text 80,
            extraction_call SYSTEM_AGENT_POLICY
              (JStr (agent_user_prompt env user_text policy nlu sent language)) 400]"
proof (intro conjI impI)
  assume "isl (fst (llm_json env [system_msg SYSTEM_NLU_PROMPT, user_msg user_text] 0 200 s1))"
  then obtain e t where "llm_json env [system_msg SYSTEM_NLU_PROMPT, user_msg user_text] 0 200 s1 = (Inl e, t)"
    by (cases "llm_json env [system_msg SYSTEM_NLU_PROMPT, user_msg user_text] 0 200 s1")
       (auto simp: isl_def)
  from nlu_step_failed[OF this] assms(2)
  show "nlu = JObj [(''intent'', JStr ''out_of_scope''), (''confidence'', JFloat (1 / 2)),
                        (''entities'', JObj [])]"
    by (simp add: default_nlu_def)
next
  assume "isl (fst (llm_json env [system_msg SYSTEM_SENTIMENT_PROMPT, user_msg user_text] 0 80 s2))"
  then obtain e t where "llm_json env [system_msg SYSTEM_SENTIMENT_PROMPT, user_msg user_text] 0 80 s2 = (Inl e, t)"
    by (cases "llm_json env [system_msg SYSTEM_SENTIMENT_PROMPT, user_msg user_text] 0 80 s2")
       (auto simp: isl_def)
  from sentiment_step_failed[OF this] assms(3)
  show "sent = JObj [(''sentiment'', JStr ''neutral''), (''score'', JFloat (1 / 2))]"
    by (simp add: default_sent_def)
next
  show "new_calls agent_message env body s =
           [extraction_call SYSTEM_NLU_PROMPT user_text 200,
            extraction_call SYSTEM_SENTIMENT_PROMPT user_text 80,
            extraction_call SYSTEM_AGENT_POLICY
              (JStr (agent_user_prompt env user_text policy nlu sent language)) 400]"
    by (rule agent_message_calls[OF assms])
qed

theorem classification_defaults_witness:
  "agent_prologue (scripted [])
      (JObj [(''session_id'', JStr ''s1''), (''message'', JStr ''hi'')]) init_db =
     (Inr (Inr (JStr ''s1'', JStr ''en'', JStr ''hi'', JNull)), after_user_turn) \<and>
   isl (fst (llm_json (scripted []) [system_msg SYSTEM_NLU_PROMPT, user_msg (JStr ''hi'')] 0 200
          after_user_turn)) \<and>
   fst (nlu_step (scripted []) (JStr ''hi'') after_user_turn) =
     JObj [(''intent'', JStr ''out_of_scope''), (''confidence'', JFloat (1 / 2)),
           (''entities'', JObj [])] \<and>
   isl (fst (llm_json (scripted []) [system_msg SYSTEM_SENTIMENT_PROMPT, user_msg (JStr ''hi'')] 0 80
          (snd (nlu_step (scripted []) (JStr ''hi'') after_user_turn)))) \<and>
   fst (sentiment_step (scripted []) (JStr ''hi'')
          (snd (nlu_step (scripted []) (JStr ''hi'') after_user_turn))) =
     JObj [(''sentiment'', JStr ''neutral''), (''score'', JFloat (1 / 2))] \<and>
   length (new_calls agent_message (scripted [])
      (JObj [(''session_id'', JStr ''s1''), (''message'', JStr ''hi'')]) init_db) = 3"
proof -
  have P: "agent_prologue (scripted [])
      (JObj [(''session_id'', JStr ''s1''), (''message'', JStr ''hi'')]) init_db =
     (Inr (Inr (JStr ''s1'', JStr ''en'', JStr ''hi'', JNull)), after_user_turn)"
    by (simp add: run_defs after_user_turn_def)
  have N: "nlu_step (scripted []) (JStr ''hi'') after_user_turn =
             (fst (nlu_step (scripted []) (JStr ''hi'') after_user_turn),
              snd (nlu_step (scripted []) (JStr ''hi'') after_user_turn))"
    by simp
  have S: "sentiment_step (scripted []) (JStr ''hi'')
             (snd (nlu_step (scripted []) (JStr ''hi'') after_user_turn)) =
             (fst (sentiment_step (scripted []) (JStr ''hi'')
                (snd (nlu_step (scripted []) (JStr ''hi'') after_user_turn))),
              snd (sentiment_step (scripted []) (JStr ''hi'')
                (snd (nlu_step (scripted []) (JStr ''hi'') after_user_turn))))"
    by simp
  have I1: "isl (fst (llm_json (scripted []) [system_msg SYSTEM_NLU_PROMPT, user_msg (JStr ''hi'')] 0 200
          after_user_turn))"
    by (simp add: run_defs after_user_turn_def)
  have I2: "isl (fst (llm_json (scripted []) [system_msg SYSTEM_SENTIMENT_PROMPT, user_msg (JStr ''hi'')] 0 80
          (snd (nlu_step (scripted []) (JStr ''hi'') after_user_turn))))"
    by (simp add: run_defs after_user_turn_def)
  from classification_defaults[OF P N S] P I1 I2 show ?thesis
    by simp
qed

section \<open>Every parse makes a new record\<close>

text \<open>
  C5: every successful call of the policy endpoint appends one new row to the policy table,
  under an identifier that no earlier row has, whatever the policy number; so two
  consecutive successful calls with the same request leave two rows and answer with two
  different \<^verbatim>\<open>_db_id\<close> values. (The identifier column is the primary key of the table: a
  call that drew an identifier already in use would fail rather than succeed.)
\<close>

theorem parse_policy_never_deduplicates:
  assumes "parse_policy env body s = (Inr (Response 200 r1), s1)"
    and "parse_policy env body s1 = (Inr (Response 200 r2), s2)"
  shows "\<exists>row1 row2 kv1 kv2.
           policies s1 = policies s @ [row1] \<and> policies s2 = policies s @ [row1, row2] \<and>
           pid row1 \<notin> pid ` set (policies s) \<and> pid row2 \<notin> pid ` set (policies s1) \<and>
           r1 = JObj kv1 \<and> dget kv1 ''_db_id'' = JStr (pid row1) \<and>
           r2 = JObj kv2 \<and> dget kv2 ''_db_id'' = JStr (pid row2) \<and>
           dget kv1 ''_db_id'' \<noteq> dget kv2 ''_db_id''"
proof -
  from parse_policy_inserts[OF assms(1)] obtain kv1 row1 where
    A: "policies s1 = policies s @ [row1]" "pid row1 \<notin> pid ` set (policies s)"
       "r1 = JObj (AList.update ''_db_id'' (JStr (pid row1)) kv1)"
    by blast
  from parse_policy_inserts[OF assms(2)] obtain kv2 row2 where
    B: "policies s2 = policies s1 @ [row2]" "pid row2 \<notin> pid ` set (policies s1)"
       "r2 = JObj (AList.update ''_db_id'' (JStr (pid row2)) kv2)"
    by blast
  from A(1) B(2) have "pid row1 \<noteq> pid row2"
    by auto
  with A B show ?thesis
    by (auto simp: dget_update_same)
qed
theorem parse_policy_never_deduplicates_witness:
  "fst (parse_policy (scripted [(0, Inr sample_policy_json), (3, Inr sample_policy_json)])
          (JObj [(''text'', JStr ''Policy POL123, premium 1200'')]) init_db) =
     Inr (Response 200
       (JObj [(''policy_number'', JStr ''POL123''), (''premium_amount'', JInt 1200),
              (''_db_id'', JStr ''a81c04d2-19be-4f60-8d37-6b2e9f0c1d3e'')])) \<and>
   fst (parse_policy (scripted [(0, Inr sample_policy_json), (3, Inr sample_policy_json)])
          (JObj [(''text'', JStr ''Policy POL123, premium 1200'')])
          (snd (parse_policy (scripted [(0, Inr sample_policy_json), (3, Inr sample_policy_json)])
             (JObj [(''text'', JStr ''Policy POL123, premium 1200'')]) init_db))) =
     Inr (Response 200
       (JObj [(''policy_number'', JStr ''POL123''), (''premium_amount'', JInt 1200),
              (''_db_id'', JStr ''19c3a5e7-8b60-4f2d-97a4-c5d6e7f80a1b'')])) \<and>
   map policy_number
     (policies (snd (parse_policy (scripted [(0, Inr sample_policy_json), (3, Inr sample_policy_json)])
          (JObj [(''text'', JStr ''Policy POL123, premium 1200'')])
          (snd (parse_policy (scripted [(0, Inr sample_policy_json), (3, Inr sample_policy_json)])
             (JObj [(''text'', JStr ''Policy POL123, premium 1200'')]) init_db))))) =
     [SqlText ''POL123'', SqlText ''POL123'']"
proof -
  let ?E = "scripted [(0, Inr sample_policy_json), (3, Inr sample_policy_json)]"
  let ?B = "JObj [(''text'', JStr ''Policy POL123, premium 1200'')]"
  let ?S1 = "snd (parse_policy ?E ?B init_db)"
  let ?S2 = "snd (parse_policy ?E ?B ?S1)"
  let ?R1 = "JObj [(''policy_number'', JStr ''POL123''), (''premium_amount'', JInt 1200),
                   (''_db_id'', JStr ''a81c04d2-19be-4f60-8d37-6b2e9f0c1d3e'')]"
  let ?R2 = "JObj [(''policy_number'', JStr ''POL123''), (''premium_amount'', JInt 1200),
                   (''_db_id'', JStr ''19c3a5e7-8b60-4f2d-97a4-c5d6e7f80a1b'')]"
  have F1: "fst (parse_policy ?E ?B init_db) = Inr (Response 200 ?R1)"
    by (simp add: run_defs)
  then have A: "parse_policy ?E ?B init_db = (Inr (Response 200 ?R1), ?S1)"
    by (metis prod.collapse)
  have F2: "fst (parse_policy ?E ?B ?S1) = Inr (Response 200 ?R2)"
    by (simp add: run_defs)
  then have B: "parse_policy ?E ?B ?S1 = (Inr (Response 200 ?R2), ?S2)"
    by (metis prod.collapse)
  have C: "map policy_number (policies ?S2) = [SqlText ''POL123'', SqlText ''POL123'']"
    by (simp add: run_defs)
  from parse_policy_never_deduplicates[OF A B] F1 F2 C show ?thesis
    by blast
qed

section \<open>What is stored is what was extracted\<close>



section \<open>Reply and action of the dialogue endpoint\<close>




section \<open>Failures of the dialogue endpoint\<close>




section \<open>The mock payment\<close>

text \<open>
  C4, as the spec states it, takes the amount from the action payload whenever it is
  present. The handler takes it with \<^verbatim>\<open>or\<close>: an amount of 0 in the payload is present and
  is dropped; without a policy the answer carries null.
\<close>

theorem payment_amount_zero_is_dropped:
  "dget [(''amount'', JInt 0)] ''amount'' = JInt 0 \<and>
   fst (agent_message (scripted [(4, Inr sample_payment_json)])
          (JObj [(''session_id'', JStr ''s1''), (''message'', JStr ''pay now'')]) init_db) =
     Inr (Response 200
       (JObj [(''reply'', JStr ''Paying now''), (''action'', JStr ''initiate_payment''),
              (''action_payload'',
                 JObj [(''payment_id'', JStr ''pay_7b6a5c4d''),
                       (''payment_link'', JStr ''https://mockpay.example/pay/pay_7b6a5c4d''),
                       (''amount'', JNull)])]))"
  by (simp add: run_defs)

text \<open>
  C4, amended: when the resolved action is \<^verbatim>\<open>initiate_payment\<close>, the action payload is
  absent, falsy or an object, the policy context is absent or an object, and the store
  accepts the agent turn, the answer is the decision with its action payload replaced by
  exactly the keys \<^verbatim>\<open>payment_id\<close>, \<^verbatim>\<open>payment_link\<close> and \<^verbatim>\<open>amount\<close>: the payment id is
  \<^verbatim>\<open>pay_\<close> and the first eight characters of a fresh UUID, the link is
  \<^verbatim>\<open>https://mockpay.example/pay/\<close> followed by the payment id, and the amount is the
  amount of the payload when that is truthy, else the premium amount of the policy context
  when there is a non-empty one, else null.
\<close>

theorem payment_payload:
  assumes "agent_prologue env body s = (Inr (Inr (sid, language, user_text, policy)), s1)"
    and "nlu_step env user_text s1 = (nlu, s2)"
    and "sentiment_step env user_text s2 = (sent, s3)"
    and "decision_step env (agent_user_prompt env user_text policy nlu sent language)
           language s3 = (JObj A, s4)"
    and "dget A ''action'' = JStr ''initiate_payment''"
    and "py_or (dget A ''action_payload'') (JObj []) = JObj payload"
    and "truthy policy \<longrightarrow> policy = JObj pk"
    and "log_conversation env sid ''agent'' (dget_default A ''reply'' (JStr []))
           (s4\<lparr>tick := tick s4 + 1\<rparr>) = (Inr (), s5)"
  shows "\<exists>R payment_id.
           agent_message env body s = (Inr (Response 200 (JObj R)), s5) \<and>
           payment_id = ''pay_'' @ take 8 (uuid4 env (tick s4)) \<and>
           dget R ''action_payload'' =
             JObj [(''payment_id'', JStr payment_id),
                   (''payment_link'', JStr (''https://mockpay.example/pay/'' @ payment_id)),
                   (''amount'',
                      if truthy (dget payload ''amount'') then dget payload ''amount''
                      else if truthy policy then dget pk ''premium_amount'' else JNull)] \<and>
           R = AList.update ''action_payload'' (dget R ''action_payload'') A"
proof -
  note P = payment_step_initiate[OF assms(5,6,7), of env s4]
  have "dget_default (AList.update ''action_payload'' v A) ''reply'' (JStr []) =
          dget_default A ''reply'' (JStr [])" for v
    by (simp add: dget_default_def update_conv')
  then show ?thesis
    using agent_message_turn[OF assms(1)] agent_turn_unfold[OF assms(2,3,4)] P assms(8)
    by (simp add: dget_update_same)
qed

theorem payment_payload_witness:
  "fst (agent_message (scripted [(4, Inr sample_payment_json)])
          (JObj [(''session_id'', JStr ''s1''), (''policy_number'', JStr ''POL123''),
                 (''message'', JStr ''pay now'')]) seeded_db) =
     Inr (Response 200
       (JObj [(''reply'', JStr ''Paying now''), (''action'', JStr ''initiate_payment''),
              (''action_payload'',
                 JObj [(''payment_id'', JStr ''pay_7b6a5c4d''),
                       (''payment_link'', JStr ''https://mockpay.example/pay/pay_7b6a5c4d''),
                       (''amount'', JInt 1200)])]))"
proof -
  let ?E = "scripted [(4, Inr sample_payment_json)]"
  let ?B = "JObj [(''session_id'', JStr ''s1''), (''policy_number'', JStr ''POL123''),
                  (''message'', JStr ''pay now'')]"
  let ?t = "JStr ''pay now''"
  let ?p = "JObj sample_policy"
  let ?P = "agent_prologue ?E ?B seeded_db"
  let ?N = "nlu_step ?E ?t (snd ?P)"
  let ?S = "sentiment_step ?E ?t (snd ?N)"
  let ?D = "decision_step ?E (agent_user_prompt ?E ?t ?p (fst ?N) (fst ?S) (JStr ''en''))
              (JStr ''en'') (snd ?S)"
  let ?G = "log_conversation ?E (JStr ''s1'') ''agent''
              (dget_default sample_payment ''reply'' (JStr []))
              ((snd ?D)\<lparr>tick := tick (snd ?D) + 1\<rparr>)"
  have "fst ?P = Inr (Inr (JStr ''s1'', JStr ''en'', ?t, ?p))"
    by (simp add: run_defs)
  then have P: "?P = (Inr (Inr (JStr ''s1'', JStr ''en'', ?t, ?p)), snd ?P)"
    by (metis prod.collapse)
  have N: "?N = (fst ?N, snd ?N)" by simp
  have S: "?S = (fst ?S, snd ?S)" by simp
  have "fst ?D = JObj sample_payment"
    by (simp add: run_defs)
  then have D: "?D = (JObj sample_payment, snd ?D)"
    by (metis prod.collapse)
  have act: "dget sample_payment ''action'' = JStr ''initiate_payment''"
    by (simp add: run_defs)
  have pl: "py_or (dget sample_payment ''action_payload'') (JObj []) = JObj [(''amount'', JInt 0)]"
    by (simp add: run_defs)
  have pol: "truthy ?p \<longrightarrow> ?p = JObj sample_policy"
    by simp
  have "fst ?G = Inr ()"
    by (simp add: run_defs)
  then have G: "?G = (Inr (), snd ?G)"
    by (metis prod.collapse)
  have R: "fst (agent_message ?E ?B seeded_db) =
     Inr (Response 200
       (JObj [(''reply'', JStr ''Paying now''), (''action'', JStr ''initiate_payment''),
              (''action_payload'',
                 JObj [(''payment_id'', JStr ''pay_7b6a5c4d''),
                       (''payment_link'', JStr ''https://mockpay.example/pay/pay_7b6a5c4d''),
                       (''amount'', JInt 1200)])]))"
    by (simp add: run_defs)
  from payment_payload[OF P N S D act pl pol G] R show ?thesis
    by blast
qed

end
